theory Spec2Isabelle
  imports Main "HOL-Library.AList"
begin

section \<open>JavaScript values used by the class form\<close>

text \<open>
  The form stores TypeScript \<open>number\<close>s that come from \<open>parseInt\<close>, from literals
  and from \<open>Array.length\<close>: each is an integer or \<open>NaN\<close>. Integers are unbounded here
  (the form's values stay far below \<open>2^53\<close>, where a double is still exact).
\<close>

datatype jsnum = JNaN | JInt int

text \<open>Truthiness of a number: \<open>0\<close> and \<open>NaN\<close> are falsy.\<close>

definition truthy :: "jsnum \<Rightarrow> bool" where
  "truthy x = (case x of JNaN \<Rightarrow> False | JInt i \<Rightarrow> i \<noteq> 0)"

text \<open>Truthiness of \<open>number | null\<close>: \<open>null\<close> is falsy as well.\<close>

definition truthy_opt :: "jsnum option \<Rightarrow> bool" where
  "truthy_opt x = (case x of None \<Rightarrow> False | Some n \<Rightarrow> truthy n)"

text \<open>\<open>a || b\<close> on numbers.\<close>

definition or_else :: "jsnum \<Rightarrow> jsnum \<Rightarrow> jsnum" where
  "or_else a b = (if truthy a then a else b)"

fun js_add :: "jsnum \<Rightarrow> jsnum \<Rightarrow> jsnum" where
  "js_add (JInt a) (JInt b) = JInt (a + b)"
| "js_add _ _ = JNaN"

fun js_sub :: "jsnum \<Rightarrow> jsnum \<Rightarrow> jsnum" where
  "js_sub (JInt a) (JInt b) = JInt (a - b)"
| "js_sub _ _ = JNaN"

fun js_mul :: "jsnum \<Rightarrow> jsnum \<Rightarrow> jsnum" where
  "js_mul (JInt a) (JInt b) = JInt (a * b)"
| "js_mul _ _ = JNaN"

text \<open>Comparisons with \<open>NaN\<close> are false.\<close>

fun js_lt :: "jsnum \<Rightarrow> jsnum \<Rightarrow> bool" where
  "js_lt (JInt a) (JInt b) = (a < b)"
| "js_lt _ _ = False"

fun js_gt :: "jsnum \<Rightarrow> jsnum \<Rightarrow> bool" where
  "js_gt (JInt a) (JInt b) = (a > b)"
| "js_gt _ _ = False"

text \<open>\<open>Math.min\<close> and \<open>Math.max\<close> return \<open>NaN\<close> when an argument is \<open>NaN\<close>.\<close>

fun Math_min :: "jsnum \<Rightarrow> jsnum \<Rightarrow> jsnum" where
  "Math_min (JInt a) (JInt b) = JInt (min a b)"
| "Math_min _ _ = JNaN"

fun Math_max :: "jsnum \<Rightarrow> jsnum \<Rightarrow> jsnum" where
  "Math_max (JInt a) (JInt b) = JInt (max a b)"
| "Math_max _ _ = JNaN"

definition isNaN :: "jsnum \<Rightarrow> bool" where
  "isNaN x = (x = JNaN)"

text \<open>
  A JavaScript string is a sequence of UTF-16 code units; \<open>length\<close> counts code units,
  as \<open>String.length\<close> does. \<open>lit\<close> embeds an ASCII literal.
\<close>

type_synonym jsstring = "nat list"

definition lit :: "string \<Rightarrow> jsstring" where
  "lit s = map of_char s"

text \<open>
  The code units that \<open>String.prototype.trim\<close> strips: ECMAScript's WhiteSpace
  (TAB, VT, FF, SP, NBSP, ZWNBSP and the space separators) and LineTerminator
  (LF, CR, LS, PS).
\<close>

definition is_ws :: "nat \<Rightarrow> bool" where
  "is_ws c = (c = 9 \<or> c = 10 \<or> c = 11 \<or> c = 12 \<or> c = 13 \<or> c = 32 \<or> c = 160 \<or>
     c = 5760 \<or> (8192 \<le> c \<and> c \<le> 8202) \<or> c = 8232 \<or> c = 8233 \<or> c = 8239 \<or>
     c = 8287 \<or> c = 12288 \<or> c = 65279)"

definition trimStart :: "jsstring \<Rightarrow> jsstring" where
  "trimStart s = dropWhile is_ws s"

definition trim :: "jsstring \<Rightarrow> jsstring" where
  "trim s = rev (dropWhile is_ws (rev (dropWhile is_ws s)))"

text \<open>Decimal digits of a natural number, most significant first.\<close>

fun digits :: "nat \<Rightarrow> jsstring" where
  "digits n = (if n < 10 then [48 + n] else digits (n div 10) @ [48 + n mod 10])"

declare digits.simps [simp del]

text \<open>
  \<open>Number.prototype.toString\<close>, also what a template literal \<open>${n}\<close> prints
  (for integers below \<open>10^21\<close>, where JavaScript prints plain decimal digits).
\<close>

definition toString :: "jsnum \<Rightarrow> jsstring" where
  "toString x = (case x of
       JNaN \<Rightarrow> lit ''NaN''
     | JInt i \<Rightarrow> (if i < 0 then 45 # digits (nat (- i)) else digits (nat i)))"

section \<open>The data model (types.ts)\<close>

datatype Day = MONDAY | TUESDAY | WEDNESDAY | THURSDAY | FRIDAY

record ClassInput =
  class_id :: jsstring
  name :: jsstring
  teacher :: jsstring
  periods_per_week :: jsnum
  duration :: jsnum
  color :: "jsstring option"

record TimetableConstraints =
  max_classes_per_day :: jsnum
  periods_per_day :: jsnum
  days_per_week :: "Day list"
  lunch_break_period :: "jsnum option"
  prefer_morning :: bool
  prefer_afternoon :: bool

text \<open>The initial state of both versions of the form (the \<open>useState\<close> arguments).\<close>

definition initial_classes :: "ClassInput list" where
  "initial_classes =
     [\<lparr>class_id = lit ''1'', name = [], teacher = [],
       periods_per_week = JInt 5, duration = JInt 1, color = None\<rparr>]"

definition initial_constraints :: TimetableConstraints where
  "initial_constraints =
     \<lparr>max_classes_per_day = JInt 8, periods_per_day = JInt 8,
      days_per_week = [MONDAY, TUESDAY, WEDNESDAY, THURSDAY, FRIDAY],
      lunch_break_period = Some (JInt 4),
      prefer_morning = False, prefer_afternoon = False\<rparr>"

section \<open>The validating form: capacity figures\<close>

text \<open>
  The repository holds two versions of the \<open>ClassForm\<close> component. The simple form
  is \<open>frontend/src/components/ClassForm.tsx\<close>; its definitions end in \<open>_v1\<close>. The
  validating form is the later version with \<open>validateInputs\<close>, the capacity figures and
  \<open>validationErrors\<close>; where both versions have a function of the same name, its
  definitions end in \<open>_v2\<close>.
\<close>

text \<open>
  \<open>totalPeriodsNeeded\<close>: the \<open>reduce\<close> over the classes, from \<open>0\<close>, adding
  \<open>(cls.periods_per_week || 0) * (cls.duration || 1)\<close>.
\<close>

definition totalPeriodsNeeded :: "ClassInput list \<Rightarrow> jsnum" where
  "totalPeriodsNeeded classes =
     foldl (\<lambda>sum cls.
        let periodsPerWeek = or_else (periods_per_week cls) (JInt 0);
            duration = or_else (duration cls) (JInt 1)
        in js_add sum (js_mul periodsPerWeek duration)) (JInt 0) classes"

text \<open>
  \<open>totalPeriodsAvailable\<close>:
  \<open>days_per_week.length * periods_per_day - (lunch_break_period ? days_per_week.length : 0)\<close>.
\<close>

definition totalPeriodsAvailable :: "TimetableConstraints \<Rightarrow> jsnum" where
  "totalPeriodsAvailable constraints =
     js_sub (js_mul (JInt (int (length (days_per_week constraints)))) (periods_per_day constraints))
       (if truthy_opt (lunch_break_period constraints)
        then JInt (int (length (days_per_week constraints))) else JInt 0)"

section \<open>The validating form: validation and submission\<close>

text \<open>
  \<open>errors\<close> is the object \<open>Record<string, string>\<close>: keys in insertion order, an
  assignment to a key that is present overwrites its message.
\<close>

type_synonym errors = "(jsstring \<times> jsstring) list"

text \<open>The key \<open>`class-${id}-${field}`\<close>.\<close>

definition class_key :: "jsstring \<Rightarrow> string \<Rightarrow> jsstring" where
  "class_key i field = lit ''class-'' @ i @ lit ''-'' @ lit field"

text \<open>The body of \<open>classes.forEach\<close> in \<open>validateInputs\<close>, on the errors so far.\<close>

definition validateClass :: "TimetableConstraints \<Rightarrow> errors \<Rightarrow> ClassInput \<Rightarrow> errors" where
  "validateClass constraints errors cls =
    (let e1 =
          (if name cls = [] \<or> trim (name cls) = [] then
             AList.update (class_key (class_id cls) ''name'') (lit ''Class name is required'') errors
           else if length (trim (name cls)) > 100 then
             AList.update (class_key (class_id cls) ''name'')
               (lit ''Class name too long (max 100 chars)'') errors
           else errors);
         e2 =
          (if teacher cls = [] \<or> trim (teacher cls) = [] then
             AList.update (class_key (class_id cls) ''teacher'') (lit ''Teacher name is required'') e1
           else if length (trim (teacher cls)) > 100 then
             AList.update (class_key (class_id cls) ''teacher'')
               (lit ''Teacher name too long (max 100 chars)'') e1
           else e1);
         e3 =
          (if js_lt (periods_per_week cls) (JInt 1) \<or> js_gt (periods_per_week cls) (JInt 40) then
             AList.update (class_key (class_id cls) ''periods'')
               (lit ''Periods must be between 1-40'') e2
           else e2);
         e4 =
          (if js_lt (duration cls) (JInt 1) \<or> js_gt (duration cls) (JInt 4) then
             AList.update (class_key (class_id cls) ''duration'')
               (lit ''Duration must be between 1-4'') e3
           else e3);
         e5 =
          (if js_gt (duration cls) (periods_per_day constraints) then
             AList.update (class_key (class_id cls) ''duration'')
               (lit ''Duration cannot exceed periods per day ('' @
                  toString (periods_per_day constraints) @ lit '')'') e4
           else e4)
     in e5)"

definition capacity_message :: "jsnum \<Rightarrow> jsnum \<Rightarrow> jsstring" where
  "capacity_message needed available =
     lit ''Not enough time slots! Need '' @ toString needed @ lit '' but only '' @
     toString available @ lit '' available.''"

definition lunch_message :: "jsnum \<Rightarrow> jsnum \<Rightarrow> jsstring" where
  "lunch_message lunch ppd =
     lit ''Lunch break period ('' @ toString lunch @
     lit '') cannot exceed periods per day ('' @ toString ppd @ lit '')''"

text \<open>
  \<open>validateInputs\<close>: the errors it hands to \<open>setValidationErrors\<close>, and its result
  \<open>Object.keys(errors).length === 0\<close>. \<open>new Set(ids).size\<close> is the number of
  different ids.
\<close>

definition validateInputs :: "ClassInput list \<Rightarrow> TimetableConstraints \<Rightarrow> errors \<times> bool" where
  "validateInputs classes constraints =
    (let e0 = foldl (validateClass constraints) [] classes;
         ids = map class_id classes;
         e1 =
          (if length (remdups ids) \<noteq> length ids then
             AList.update (lit ''general'')
               (lit ''Duplicate class IDs detected. Please refresh the page.'') e0
           else e0);
         e2 =
          (case lunch_break_period constraints of
             None \<Rightarrow> e1
           | Some lunch \<Rightarrow>
               if truthy lunch \<and> js_gt lunch (periods_per_day constraints) then
                 AList.update (lit ''lunch'') (lunch_message lunch (periods_per_day constraints)) e1
               else e1);
         e3 =
          (if js_gt (totalPeriodsNeeded classes) (totalPeriodsAvailable constraints) then
             AList.update (lit ''capacity'')
               (capacity_message (totalPeriodsNeeded classes) (totalPeriodsAvailable constraints)) e2
           else e2)
     in (e3, e3 = []))"

text \<open>
  The state of the simple form (ClassForm.tsx), and of the validating form, which adds
  \<open>validationErrors\<close>.
\<close>

record form_v1 =
  classes :: "ClassInput list"
  constraints :: TimetableConstraints
  loading :: bool
  error :: "jsstring option"

record form_v2 = form_v1 +
  validationErrors :: errors

definition initial_v1 :: form_v1 where
  "initial_v1 = \<lparr>classes = initial_classes, constraints = initial_constraints,
     loading = False, error = None\<rparr>"

definition initial_v2 :: form_v2 where
  "initial_v2 = \<lparr>classes = initial_classes, constraints = initial_constraints,
     loading = False, error = None, validationErrors = []\<rparr>"

text \<open>
  What \<open>handleGenerate\<close> does towards the outside before it awaits the response: the
  \<open>onSubmit\<close> callback and the \<open>POST /api/generate\<close> that starts the search.
\<close>

datatype effect =
    OnSubmit "ClassInput list" "TimetableConstraints option"
  | PostGenerate "ClassInput list" TimetableConstraints

text \<open>
  \<open>handleGenerate\<close> of the validating form, up to the \<open>await\<close>: the state it has set
  and the effects it has caused.
\<close>

definition handleGenerate_v2 :: "form_v2 \<Rightarrow> form_v2 \<times> effect list" where
  "handleGenerate_v2 st =
    (let st1 = st\<lparr>error := None\<rparr>;
         (errors, ok) = validateInputs (classes st1) (constraints st1);
         st2 = st1\<lparr>validationErrors := errors\<rparr>
     in if \<not> ok then
          (st2\<lparr>error := Some (lit ''Please fix the validation errors above'')\<rparr>, [])
        else
          let st3 = st2\<lparr>loading := True\<rparr>;
              trimmedClasses =
                map (\<lambda>cls. cls\<lparr>name := trim (name cls), teacher := trim (teacher cls)\<rparr>)
                  (classes st3)
          in (st3, [OnSubmit trimmedClasses (Some (constraints st3)),
                    PostGenerate trimmedClasses (constraints st3)]))"

section \<open>The simple form: submission\<close>

text \<open>
  \<open>handleGenerate\<close> of ClassForm.tsx, up to the \<open>await\<close>. \<open>!c.name\<close> holds of the
  empty string only.
\<close>

definition handleGenerate_v1 :: "form_v1 \<Rightarrow> form_v1 \<times> effect list" where
  "handleGenerate_v1 st =
    (let st1 = st\<lparr>error := None\<rparr>;
         emptyClasses = filter (\<lambda>c. name c = [] \<or> teacher c = []) (classes st1)
     in if length emptyClasses > 0 then
          (st1\<lparr>error := Some (lit ''Please fill in all class names and teachers'')\<rparr>, [])
        else
          let st2 = st1\<lparr>loading := True\<rparr>
          in (st2, [OnSubmit (classes st2) None,
                    PostGenerate (classes st2) (constraints st2)]))"

section \<open>The form's event handlers\<close>

text \<open>
  A class handler is modelled by the list it passes to \<open>setClasses\<close>, a constraints
  handler by the object it passes to \<open>setConstraints\<close>; the handlers of the validating
  form that also write \<open>validationErrors\<close> are modelled on its whole state. The numeric
  inputs hand over \<open>parseInt(e.target.value)\<close>, an integer or \<open>NaN\<close>.
\<close>

definition new_class :: "jsstring \<Rightarrow> ClassInput" where
  "new_class newId =
     \<lparr>class_id = newId, name = [], teacher = [],
      periods_per_week = JInt 5, duration = JInt 1, color = None\<rparr>"

text \<open>The fields \<open>updateClass\<close> is called with, each with its new value.\<close>

datatype field_value = Name jsstring | Teacher jsstring | Periods_per_week jsnum

fun field_key :: "field_value \<Rightarrow> string" where
  "field_key (Name _) = ''name''"
| "field_key (Teacher _) = ''teacher''"
| "field_key (Periods_per_week _) = ''periods_per_week''"

text \<open>\<open>{ ...c, [field]: value }\<close>.\<close>

fun set_field :: "ClassInput \<Rightarrow> field_value \<Rightarrow> ClassInput" where
  "set_field c (Name v) = c\<lparr>name := v\<rparr>"
| "set_field c (Teacher v) = c\<lparr>teacher := v\<rparr>"
| "set_field c (Periods_per_week n) = c\<lparr>periods_per_week := n\<rparr>"

subsection \<open>The simple form (ClassForm.tsx)\<close>

definition addClass_v1 :: "ClassInput list \<Rightarrow> ClassInput list" where
  "addClass_v1 cs =
     (let newId = toString (JInt (int (length cs) + 1)) in cs @ [new_class newId])"

definition removeClass_v1 :: "jsstring \<Rightarrow> ClassInput list \<Rightarrow> ClassInput list" where
  "removeClass_v1 i cs = filter (\<lambda>c. class_id c \<noteq> i) cs"

definition updateClass_v1 :: "jsstring \<Rightarrow> field_value \<Rightarrow> ClassInput list \<Rightarrow> ClassInput list" where
  "updateClass_v1 i fv cs = map (\<lambda>c. if class_id c = i then set_field c fv else c) cs"

definition periods_per_week_onChange_v1 :: "jsstring \<Rightarrow> jsnum \<Rightarrow> ClassInput list \<Rightarrow> ClassInput list" where
  "periods_per_week_onChange_v1 i val cs = updateClass_v1 i (Periods_per_week val) cs"

definition periods_per_day_onChange_v1 :: "jsnum \<Rightarrow> TimetableConstraints \<Rightarrow> TimetableConstraints" where
  "periods_per_day_onChange_v1 val k = k\<lparr>periods_per_day := val\<rparr>"

text \<open>\<open>lunch_break_period: parseInt(e.target.value) || null\<close>.\<close>

definition lunch_break_period_onChange_v1 :: "jsnum \<Rightarrow> TimetableConstraints \<Rightarrow> TimetableConstraints" where
  "lunch_break_period_onChange_v1 val k =
     k\<lparr>lunch_break_period := (if truthy val then Some val else None)\<rparr>"

text \<open>The two preference checkboxes are the same in both versions.\<close>

definition prefer_morning_onChange :: "bool \<Rightarrow> TimetableConstraints \<Rightarrow> TimetableConstraints" where
  "prefer_morning_onChange checked k =
     k\<lparr>prefer_morning := checked, prefer_afternoon := False\<rparr>"

definition prefer_afternoon_onChange :: "bool \<Rightarrow> TimetableConstraints \<Rightarrow> TimetableConstraints" where
  "prefer_afternoon_onChange checked k =
     k\<lparr>prefer_afternoon := checked, prefer_morning := False\<rparr>"

subsection \<open>The validating form\<close>

text \<open>\<open>addClass\<close>; \<open>now\<close> is what \<open>Date.now()\<close> returns at the click.\<close>

definition addClass_v2 :: "int \<Rightarrow> ClassInput list \<Rightarrow> ClassInput list" where
  "addClass_v2 now cs = (let newId = toString (JInt now) in cs @ [new_class newId])"

definition removeClass_v2 :: "jsstring \<Rightarrow> form_v2 \<Rightarrow> form_v2" where
  "removeClass_v2 i st =
     (if length (classes st) > 1 then
        st\<lparr>classes := filter (\<lambda>c. class_id c \<noteq> i) (classes st),
           validationErrors :=
             AList.delete (class_key i ''teacher'')
               (AList.delete (class_key i ''name'') (validationErrors st))\<rparr>
      else st)"

text \<open>
  \<open>updateClass\<close>: the string fields are stored with \<open>trimStart\<close>; the validation error
  under \<open>`class-${id}-${field}`\<close> is deleted when there is one (a non-empty message).
\<close>

definition updateClass_v2 :: "jsstring \<Rightarrow> field_value \<Rightarrow> form_v2 \<Rightarrow> form_v2" where
  "updateClass_v2 i fv st =
     (let cs = map (\<lambda>c.
                 if class_id c = i then
                   (let updated = set_field c fv
                    in case fv of
                         Name v \<Rightarrow> updated\<lparr>name := trimStart v\<rparr>
                       | Teacher v \<Rightarrow> updated\<lparr>teacher := trimStart v\<rparr>
                       | Periods_per_week _ \<Rightarrow> updated)
                 else c) (classes st);
          key = class_key i (field_key fv);
          st1 = st\<lparr>classes := cs\<rparr>
      in case map_of (validationErrors st) key of
           None \<Rightarrow> st1
         | Some message \<Rightarrow>
             if message \<noteq> [] then st1\<lparr>validationErrors := AList.delete key (validationErrors st)\<rparr>
             else st1)"

definition periods_per_week_onChange_v2 :: "jsstring \<Rightarrow> jsnum \<Rightarrow> form_v2 \<Rightarrow> form_v2" where
  "periods_per_week_onChange_v2 i val st =
     updateClass_v2 i
       (Periods_per_week (if isNaN val then JInt 1 else Math_max (JInt 1) (Math_min (JInt 40) val))) st"

definition periods_per_day_onChange_v2 :: "jsnum \<Rightarrow> TimetableConstraints \<Rightarrow> TimetableConstraints" where
  "periods_per_day_onChange_v2 val k =
     k\<lparr>periods_per_day :=
       (if isNaN val then JInt 8 else Math_max (JInt 4) (Math_min (JInt 12) val))\<rparr>"

text \<open>
  \<open>lunch_break_period: val === 0 ? null : Math.max(0, Math.min(constraints.periods_per_day, val))\<close>.
\<close>

definition lunch_break_period_onChange_v2 :: "jsnum \<Rightarrow> TimetableConstraints \<Rightarrow> TimetableConstraints" where
  "lunch_break_period_onChange_v2 val k =
     k\<lparr>lunch_break_period :=
       (if val = JInt 0 then None
        else Some (Math_max (JInt 0) (Math_min (periods_per_day k) val)))\<rparr>"

subsection \<open>Sequences of form events\<close>

text \<open>
  What a user can do to the form between submissions. A row's remove button is rendered
  only while there is more than one class; the validating form disables its add button at
  20 classes.
\<close>

datatype event =
    AddClass int
  | RemoveClass jsstring
  | NameChange jsstring jsstring
  | TeacherChange jsstring jsstring
  | PeriodsPerWeekChange jsstring jsnum
  | PeriodsPerDayChange jsnum
  | LunchBreakChange jsnum
  | PreferMorningChange bool
  | PreferAfternoonChange bool

fun step_v1 :: "form_v1 \<Rightarrow> event \<Rightarrow> form_v1" where
  "step_v1 st (AddClass _) = st\<lparr>classes := addClass_v1 (classes st)\<rparr>"
| "step_v1 st (RemoveClass i) =
     (if length (classes st) > 1 then st\<lparr>classes := removeClass_v1 i (classes st)\<rparr> else st)"
| "step_v1 st (NameChange i v) = st\<lparr>classes := updateClass_v1 i (Name v) (classes st)\<rparr>"
| "step_v1 st (TeacherChange i v) = st\<lparr>classes := updateClass_v1 i (Teacher v) (classes st)\<rparr>"
| "step_v1 st (PeriodsPerWeekChange i val) =
     st\<lparr>classes := periods_per_week_onChange_v1 i val (classes st)\<rparr>"
| "step_v1 st (PeriodsPerDayChange val) =
     st\<lparr>constraints := periods_per_day_onChange_v1 val (constraints st)\<rparr>"
| "step_v1 st (LunchBreakChange val) =
     st\<lparr>constraints := lunch_break_period_onChange_v1 val (constraints st)\<rparr>"
| "step_v1 st (PreferMorningChange b) =
     st\<lparr>constraints := prefer_morning_onChange b (constraints st)\<rparr>"
| "step_v1 st (PreferAfternoonChange b) =
     st\<lparr>constraints := prefer_afternoon_onChange b (constraints st)\<rparr>"

fun step_v2 :: "form_v2 \<Rightarrow> event \<Rightarrow> form_v2" where
  "step_v2 st (AddClass now) =
     (if length (classes st) \<ge> 20 then st else st\<lparr>classes := addClass_v2 now (classes st)\<rparr>)"
| "step_v2 st (RemoveClass i) = (if length (classes st) > 1 then removeClass_v2 i st else st)"
| "step_v2 st (NameChange i v) = updateClass_v2 i (Name v) st"
| "step_v2 st (TeacherChange i v) = updateClass_v2 i (Teacher v) st"
| "step_v2 st (PeriodsPerWeekChange i val) = periods_per_week_onChange_v2 i val st"
| "step_v2 st (PeriodsPerDayChange val) =
     st\<lparr>constraints := periods_per_day_onChange_v2 val (constraints st)\<rparr>"
| "step_v2 st (LunchBreakChange val) =
     st\<lparr>constraints := lunch_break_period_onChange_v2 val (constraints st)\<rparr>"
| "step_v2 st (PreferMorningChange b) =
     st\<lparr>constraints := prefer_morning_onChange b (constraints st)\<rparr>"
| "step_v2 st (PreferAfternoonChange b) =
     st\<lparr>constraints := prefer_afternoon_onChange b (constraints st)\<rparr>"

definition run_v1 :: "event list \<Rightarrow> form_v1" where
  "run_v1 es = foldl step_v1 initial_v1 es"

definition run_v2 :: "event list \<Rightarrow> form_v2" where
  "run_v2 es = foldl step_v2 initial_v2 es"

section \<open>Notions used in the statements\<close>

text \<open>The integer that \<open>x || d\<close> evaluates to, for an integer default \<open>d\<close>.\<close>

definition js_or_int :: "jsnum \<Rightarrow> int \<Rightarrow> int" where
  "js_or_int x d = (case x of JNaN \<Rightarrow> d | JInt i \<Rightarrow> if i = 0 then d else i)"

text \<open>
  A class that passes every per-class check of \<open>validateInputs\<close>, and constraints whose
  lunch period passes its check.
\<close>

definition class_valid :: "TimetableConstraints \<Rightarrow> ClassInput \<Rightarrow> bool" where
  "class_valid k c =
     (trim (name c) \<noteq> [] \<and> length (trim (name c)) \<le> 100 \<and>
      trim (teacher c) \<noteq> [] \<and> length (trim (teacher c)) \<le> 100 \<and>
      \<not> js_lt (periods_per_week c) (JInt 1) \<and> \<not> js_gt (periods_per_week c) (JInt 40) \<and>
      \<not> js_lt (duration c) (JInt 1) \<and> \<not> js_gt (duration c) (JInt 4) \<and>
      \<not> js_gt (duration c) (periods_per_day k))"

definition lunch_valid :: "TimetableConstraints \<Rightarrow> bool" where
  "lunch_valid k = (case lunch_break_period k of None \<Rightarrow> True
     | Some lunch \<Rightarrow> \<not> (truthy lunch \<and> js_gt lunch (periods_per_day k)))"

text \<open>A named class, as a user fills a row in, for the examples.\<close>

definition example_class :: "string \<Rightarrow> string \<Rightarrow> string \<Rightarrow> int \<Rightarrow> ClassInput" where
  "example_class i n t p =
     \<lparr>class_id = lit i, name = lit n, teacher = lit t,
      periods_per_week = JInt p, duration = JInt 1, color = None\<rparr>"

text \<open>
  Three classes of 30 periods each on the initial constraints (90 needed, 35 available), and
  one class that fills the week exactly (35 needed, 35 available).
\<close>

definition overbooked_form :: form_v2 where
  "overbooked_form = initial_v2\<lparr>classes :=
     [example_class ''1'' ''Maths'' ''Mr. Smith'' 30,
      example_class ''2'' ''Physics'' ''Ms. Jones'' 30,
      example_class ''3'' ''Art'' ''Mr. Brown'' 30]\<rparr>"

definition full_week_form :: form_v2 where
  "full_week_form = initial_v2\<lparr>classes := [example_class ''1'' ''Maths'' ''Mr. Smith'' 35]\<rparr>"

text \<open>
  The simple form with one class whose name is a single space, with one class filled in,
  and with one class that asks for 36 periods of the 35 available.
\<close>

definition blank_name_form :: form_v1 where
  "blank_name_form = initial_v1\<lparr>classes := [example_class ''1'' '' '' ''Mr. Smith'' 5]\<rparr>"

definition filled_form :: form_v1 where
  "filled_form = initial_v1\<lparr>classes := [example_class ''1'' ''Maths'' ''Mr. Smith'' 5]\<rparr>"

definition overfull_form :: form_v1 where
  "overfull_form = initial_v1\<lparr>classes := [example_class ''1'' ''Maths'' ''Mr. Smith'' 36]\<rparr>"

text \<open>The ranges the numeric inputs of the validating form declare.\<close>

definition periods_in_range :: "form_v2 \<Rightarrow> bool" where
  "periods_in_range st =
     ((\<exists>q. periods_per_day (constraints st) = JInt q \<and> 4 \<le> q \<and> q \<le> 12) \<and>
      (\<forall>c\<in>set (classes st). \<exists>p. periods_per_week c = JInt p \<and> 1 \<le> p \<and> p \<le> 40))"

text \<open>
  The validating form with a class whose teacher is missing; the class ids of a form, in
  order; and the clock readings of the add-class clicks of an event sequence.
\<close>

definition no_teacher_form :: form_v2 where
  "no_teacher_form = initial_v2\<lparr>classes := [example_class ''1'' ''Maths'' '' '' 5]\<rparr>"

definition class_ids :: "form_v2 \<Rightarrow> jsstring list" where
  "class_ids st = map class_id (classes st)"

fun add_times :: "event list \<Rightarrow> int list" where
  "add_times [] = []"
| "add_times (AddClass now # es) = now # add_times es"
| "add_times (_ # es) = add_times es"

section \<open>String literals and keys\<close>

lemma lit_eq_iff: "lit a = lit b \<longleftrightarrow> a = b"
proof -
  have "inj (of_char :: char \<Rightarrow> nat)"
    by (rule injI) simp
  then show ?thesis
    by (simp add: lit_def inj_map_eq_map)
qed

lemma length_lit: "length (lit s) = length s"
  by (simp add: lit_def)

lemma lit_Nil_iff: "lit s = [] \<longleftrightarrow> s = []"
  by (simp add: lit_def)

lemma trim_Nil [simp]: "trim [] = []"
  by (simp add: trim_def)

lemma class_key_not_capacity:
  "class_key i f \<noteq> lit ''capacity''" "lit ''capacity'' \<noteq> class_key i f"
  by (simp_all add: class_key_def lit_def)

lemma other_keys_not_capacity:
  "lit ''capacity'' \<noteq> lit ''general''" "lit ''capacity'' \<noteq> lit ''lunch''"
  "lit ''general'' \<noteq> lit ''capacity''" "lit ''lunch'' \<noteq> lit ''capacity''"
  by (simp_all add: lit_eq_iff)

lemma map_of_update_other: "q \<noteq> k \<Longrightarrow> map_of (AList.update k v al) q = map_of al q"
  by (simp add: update_conv')

section \<open>The capacity figures\<close>

lemma or_else_JInt: "or_else x (JInt d) = JInt (js_or_int x d)"
  by (cases x) (simp_all add: or_else_def truthy_def js_or_int_def)

lemma foldl_needed:
  "foldl (\<lambda>sum cls. js_add sum (js_mul (or_else (periods_per_week cls) (JInt 0))
        (or_else (duration cls) (JInt 1)))) (JInt a) cs
   = JInt (a + (\<Sum>cls\<leftarrow>cs. js_or_int (periods_per_week cls) 0 * js_or_int (duration cls) 1))"
  by (induction cs arbitrary: a) (simp_all add: or_else_JInt add.assoc)

lemma needed_formula: "totalPeriodsNeeded cs =
   JInt (\<Sum>cls\<leftarrow>cs. js_or_int (periods_per_week cls) 0 * js_or_int (duration cls) 1)"
  unfolding totalPeriodsNeeded_def Let_def using foldl_needed [of 0 cs] by simp

lemma needed_example: "totalPeriodsNeeded [example_class i n t p] = JInt (if p = 0 then 0 else p)"
  by (simp add: needed_formula example_class_def js_or_int_def)

lemma available_initial: "totalPeriodsAvailable initial_constraints = JInt 35"
  by (simp add: totalPeriodsAvailable_def initial_constraints_def truthy_opt_def truthy_def)

text \<open>
  C5: the available capacity is the number of active days times periods-per-day, minus one
  period per active day when a lunch period is set (a stored non-zero number), and minus
  nothing when none is set (\<open>null\<close>, or the falsy \<open>0\<close> and \<open>NaN\<close>).
\<close>

theorem totalPeriodsAvailable_formula:
  "periods_per_day k = JInt p \<Longrightarrow>
   totalPeriodsAvailable k =
     JInt (int (length (days_per_week k)) * p -
       (case lunch_break_period k of
          None \<Rightarrow> 0
        | Some JNaN \<Rightarrow> 0
        | Some (JInt l) \<Rightarrow> if l = 0 then 0 else int (length (days_per_week k))))"
  by (simp add: totalPeriodsAvailable_def truthy_opt_def truthy_def
      split: option.splits jsnum.splits)

theorem totalPeriodsAvailable_formula_witness:
  "periods_per_day initial_constraints = JInt 8 \<and>
   totalPeriodsAvailable initial_constraints = JInt 35 \<and>
   totalPeriodsAvailable (initial_constraints\<lparr>lunch_break_period := None\<rparr>) = JInt 40"
  using totalPeriodsAvailable_formula [of initial_constraints 8]
    totalPeriodsAvailable_formula [of "initial_constraints\<lparr>lunch_break_period := None\<rparr>" 8]
  by (simp add: initial_constraints_def)

section \<open>Validation\<close>

lemma validateInputs_snd: "snd (validateInputs cs k) = (fst (validateInputs cs k) = [])"
  by (simp add: validateInputs_def Let_def)

lemma validateClass_Nil_iff: "validateClass k e c = [] \<longleftrightarrow> e = [] \<and> class_valid k c"
  by (auto simp add: validateClass_def class_valid_def Let_def)

lemma foldl_validateClass_Nil_iff:
  "foldl (validateClass k) e cs = [] \<longleftrightarrow> e = [] \<and> (\<forall>c\<in>set cs. class_valid k c)"
  by (induction cs arbitrary: e) (auto simp add: validateClass_Nil_iff)

lemma length_remdups_eq_iff: "length (remdups xs) = length xs \<longleftrightarrow> distinct xs"
  by (simp add: length_remdups_eq remdups_id_iff_distinct)

lemma validateInputs_accepts_iff:
  "snd (validateInputs cs k) \<longleftrightarrow>
     (\<forall>c\<in>set cs. class_valid k c) \<and> distinct (map class_id cs) \<and> lunch_valid k \<and>
     \<not> js_gt (totalPeriodsNeeded cs) (totalPeriodsAvailable k)"
  by (auto simp add: validateInputs_def Let_def foldl_validateClass_Nil_iff lunch_valid_def
      length_remdups_eq_iff split: option.splits)

lemma map_of_validateClass_capacity:
  "map_of (validateClass k e c) (lit ''capacity'') = map_of e (lit ''capacity'')"
proof -
  let ?q = "lit ''capacity''"
  have upd: "map_of (if b then AList.update (class_key i f) v al else al) ?q = map_of al ?q"
    for b i f v al
    by (simp add: map_of_update_other class_key_not_capacity)
  have upd2: "map_of (if b then AList.update (class_key i f) v al
        else if b' then AList.update (class_key i f) v' al else al) ?q = map_of al ?q"
    for b b' i f v v' al
    by (simp add: map_of_update_other class_key_not_capacity)
  show ?thesis
    unfolding validateClass_def Let_def by (simp only: upd upd2)
qed

lemma map_of_foldl_validateClass_capacity:
  "map_of (foldl (validateClass k) e cs) (lit ''capacity'') = map_of e (lit ''capacity'')"
  by (induction cs arbitrary: e) (simp_all add: map_of_validateClass_capacity)

lemma capacity_error_iff:
  "map_of (fst (validateInputs cs k)) (lit ''capacity'') =
     (if js_gt (totalPeriodsNeeded cs) (totalPeriodsAvailable k)
      then Some (capacity_message (totalPeriodsNeeded cs) (totalPeriodsAvailable k)) else None)"
proof -
  let ?e0 = "foldl (validateClass k) [] cs"
  let ?c = "lit ''capacity''"
  have e0: "map_of ?e0 ?c = None"
    by (simp add: map_of_foldl_validateClass_capacity)
  define e1 where "e1 = (if length (remdups (map class_id cs)) \<noteq> length (map class_id cs) then
             AList.update (lit ''general'')
               (lit ''Duplicate class IDs detected. Please refresh the page.'') ?e0
           else ?e0)"
  have e1: "map_of e1 ?c = None"
    unfolding e1_def using e0 by (simp add: update_conv' other_keys_not_capacity)
  define e2 where "e2 = (case lunch_break_period k of
             None \<Rightarrow> e1
           | Some lunch \<Rightarrow>
               if truthy lunch \<and> js_gt lunch (periods_per_day k) then
                 AList.update (lit ''lunch'') (lunch_message lunch (periods_per_day k)) e1
               else e1)"
  have e2: "map_of e2 ?c = None"
    unfolding e2_def using e1
    by (simp add: update_conv' other_keys_not_capacity split: option.splits)
  have "fst (validateInputs cs k) =
     (if js_gt (totalPeriodsNeeded cs) (totalPeriodsAvailable k) then
             AList.update ?c
               (capacity_message (totalPeriodsNeeded cs) (totalPeriodsAvailable k)) e2
           else e2)"
    unfolding validateInputs_def Let_def e2_def e1_def by simp
  then show ?thesis
    using e2 by (simp add: update_conv')
qed

section \<open>Submission\<close>

lemma handleGenerate_v2_rejected:
  "\<not> snd (validateInputs (classes st) (constraints st)) \<Longrightarrow>
   handleGenerate_v2 st =
     (st\<lparr>error := Some (lit ''Please fix the validation errors above''),
         validationErrors := fst (validateInputs (classes st) (constraints st))\<rparr>, [])"
  by (cases "validateInputs (classes st) (constraints st)")
    (simp add: handleGenerate_v2_def Let_def)

lemma handleGenerate_v2_accepted:
  "snd (validateInputs (classes st) (constraints st)) \<Longrightarrow>
   handleGenerate_v2 st =
     (st\<lparr>error := None, validationErrors := [], loading := True\<rparr>,
      [OnSubmit (map (\<lambda>cls. cls\<lparr>name := trim (name cls), teacher := trim (teacher cls)\<rparr>) (classes st))
         (Some (constraints st)),
       PostGenerate (map (\<lambda>cls. cls\<lparr>name := trim (name cls), teacher := trim (teacher cls)\<rparr>) (classes st))
         (constraints st)])"
  using validateInputs_snd [of "classes st" "constraints st"]
  by (cases "validateInputs (classes st) (constraints st)")
    (simp add: handleGenerate_v2_def Let_def)

lemma handleGenerate_v1_accepted:
  "\<forall>c\<in>set (classes st). name c \<noteq> [] \<and> teacher c \<noteq> [] \<Longrightarrow>
   handleGenerate_v1 st =
     (st\<lparr>error := None, loading := True\<rparr>,
      [OnSubmit (classes st) None, PostGenerate (classes st) (constraints st)])"
proof -
  assume a: "\<forall>c\<in>set (classes st). name c \<noteq> [] \<and> teacher c \<noteq> []"
  then have "filter (\<lambda>c. name c = [] \<or> teacher c = []) (classes st) = []"
    by (auto simp add: filter_empty_conv)
  then show ?thesis
    by (simp add: handleGenerate_v1_def Let_def)
qed

text \<open>
  C2: when the required period count exceeds the available capacity, \<open>handleGenerate\<close>
  of the validating form stops before any effect (neither \<open>onSubmit\<close> nor the request to
  the backend), stores the capacity error that names both counts, and reports failure.
\<close>

theorem capacity_exceeded_rejected:
  assumes "js_gt (totalPeriodsNeeded (classes st)) (totalPeriodsAvailable (constraints st))"
  shows "snd (handleGenerate_v2 st) = [] \<and>
    map_of (validationErrors (fst (handleGenerate_v2 st))) (lit ''capacity'') =
      Some (lit ''Not enough time slots! Need '' @ toString (totalPeriodsNeeded (classes st)) @
            lit '' but only '' @ toString (totalPeriodsAvailable (constraints st)) @
            lit '' available.'') \<and>
    error (fst (handleGenerate_v2 st)) = Some (lit ''Please fix the validation errors above'') \<and>
    loading (fst (handleGenerate_v2 st)) = loading st"
proof -
  let ?v = "validateInputs (classes st) (constraints st)"
  have cap: "map_of (fst ?v) (lit ''capacity'') =
      Some (capacity_message (totalPeriodsNeeded (classes st)) (totalPeriodsAvailable (constraints st)))"
    using assms by (simp add: capacity_error_iff)
  then have "fst ?v \<noteq> []"
    by auto
  then have "\<not> snd ?v"
    by (simp add: validateInputs_snd)
  then have "handleGenerate_v2 st =
     (st\<lparr>error := Some (lit ''Please fix the validation errors above''),
         validationErrors := fst ?v\<rparr>, [])"
    by (rule handleGenerate_v2_rejected)
  then show ?thesis
    using cap by (simp add: capacity_message_def)
qed

theorem capacity_exceeded_rejected_witness:
  "js_gt (totalPeriodsNeeded (classes overbooked_form))
     (totalPeriodsAvailable (constraints overbooked_form)) \<and>
   snd (handleGenerate_v2 overbooked_form) = [] \<and>
   map_of (validationErrors (fst (handleGenerate_v2 overbooked_form))) (lit ''capacity'') =
     Some (lit ''Not enough time slots! Need 90 but only 35 available.'')"
proof -
  have n: "totalPeriodsNeeded (classes overbooked_form) = JInt 90"
    by (simp add: overbooked_form_def needed_formula example_class_def js_or_int_def)
  have a: "totalPeriodsAvailable (constraints overbooked_form) = JInt 35"
    by (simp add: overbooked_form_def initial_v2_def available_initial)
  have d: "toString (JInt 90) = lit ''90''" "toString (JInt 35) = lit ''35''"
    by (simp_all add: toString_def digits.simps lit_def)
  have gt: "js_gt (totalPeriodsNeeded (classes overbooked_form))
     (totalPeriodsAvailable (constraints overbooked_form))"
    by (simp add: n a)
  show ?thesis
    using capacity_exceeded_rejected [OF gt] gt by (simp add: n a d lit_def)
qed

lemma handleGenerate_v2_errors:
  "validationErrors (fst (handleGenerate_v2 st)) = fst (validateInputs (classes st) (constraints st))"
  using validateInputs_snd [of "classes st" "constraints st"]
  by (cases "validateInputs (classes st) (constraints st)")
    (simp add: handleGenerate_v2_def Let_def)

text \<open>
  C4: the excess test is strict. When the required period count is at most the available
  capacity, and in particular when the two are equal, validation stores no capacity error;
  if the other checks pass as well, \<open>handleGenerate\<close> sends the request.
\<close>

theorem capacity_boundary_accepted:
  assumes "totalPeriodsNeeded (classes st) = JInt n"
    and "totalPeriodsAvailable (constraints st) = JInt a"
    and "n \<le> a"
  shows "map_of (validationErrors (fst (handleGenerate_v2 st))) (lit ''capacity'') = None \<and>
    ((\<forall>c\<in>set (classes st). class_valid (constraints st) c) \<and>
      distinct (map class_id (classes st)) \<and> lunch_valid (constraints st) \<longrightarrow>
     snd (handleGenerate_v2 st) =
       [OnSubmit (map (\<lambda>cls. cls\<lparr>name := trim (name cls), teacher := trim (teacher cls)\<rparr>) (classes st))
          (Some (constraints st)),
        PostGenerate (map (\<lambda>cls. cls\<lparr>name := trim (name cls), teacher := trim (teacher cls)\<rparr>) (classes st))
          (constraints st)])"
proof -
  have ngt: "\<not> js_gt (totalPeriodsNeeded (classes st)) (totalPeriodsAvailable (constraints st))"
    using assms by simp
  then have "map_of (validationErrors (fst (handleGenerate_v2 st))) (lit ''capacity'') = None"
    by (simp add: handleGenerate_v2_errors capacity_error_iff)
  moreover have "snd (handleGenerate_v2 st) =
       [OnSubmit (map (\<lambda>cls. cls\<lparr>name := trim (name cls), teacher := trim (teacher cls)\<rparr>) (classes st))
          (Some (constraints st)),
        PostGenerate (map (\<lambda>cls. cls\<lparr>name := trim (name cls), teacher := trim (teacher cls)\<rparr>) (classes st))
          (constraints st)]"
    if "(\<forall>c\<in>set (classes st). class_valid (constraints st) c) \<and>
      distinct (map class_id (classes st)) \<and> lunch_valid (constraints st)"
  proof -
    have "snd (validateInputs (classes st) (constraints st))"
      using that ngt by (simp add: validateInputs_accepts_iff)
    then show ?thesis
      by (simp add: handleGenerate_v2_accepted)
  qed
  ultimately show ?thesis
    by blast
qed

lemma trim_lit_Maths: "trim (lit ''Maths'') = lit ''Maths''"
  by (simp add: trim_def lit_def is_ws_def)

lemma trim_lit_Mr_Smith: "trim (lit ''Mr. Smith'') = lit ''Mr. Smith''"
  by (simp add: trim_def lit_def is_ws_def)

theorem capacity_boundary_accepted_witness:
  "totalPeriodsNeeded (classes full_week_form) = JInt 35 \<and>
   totalPeriodsAvailable (constraints full_week_form) = JInt 35 \<and>
   map_of (validationErrors (fst (handleGenerate_v2 full_week_form))) (lit ''capacity'') = None \<and>
   snd (handleGenerate_v2 full_week_form) =
     [OnSubmit [example_class ''1'' ''Maths'' ''Mr. Smith'' 35] (Some initial_constraints),
      PostGenerate [example_class ''1'' ''Maths'' ''Mr. Smith'' 35] initial_constraints]"
proof -
  have n: "totalPeriodsNeeded (classes full_week_form) = JInt 35"
    by (simp add: full_week_form_def needed_formula example_class_def js_or_int_def)
  have a: "totalPeriodsAvailable (constraints full_week_form) = JInt 35"
    by (simp add: full_week_form_def initial_v2_def available_initial)
  have cs: "classes full_week_form = [example_class ''1'' ''Maths'' ''Mr. Smith'' 35]"
    and k: "constraints full_week_form = initial_constraints"
    by (simp_all add: full_week_form_def initial_v2_def)
  have v: "class_valid initial_constraints (example_class ''1'' ''Maths'' ''Mr. Smith'' 35)"
    by (simp add: class_valid_def example_class_def trim_lit_Maths trim_lit_Mr_Smith
        initial_constraints_def length_lit lit_Nil_iff)
  have l: "lunch_valid initial_constraints"
    by (simp add: lunch_valid_def initial_constraints_def truthy_def)
  have t: "(example_class ''1'' ''Maths'' ''Mr. Smith'' 35)
      \<lparr>name := trim (name (example_class ''1'' ''Maths'' ''Mr. Smith'' 35)),
       teacher := trim (teacher (example_class ''1'' ''Maths'' ''Mr. Smith'' 35))\<rparr> =
      example_class ''1'' ''Maths'' ''Mr. Smith'' 35"
    by (simp add: example_class_def trim_lit_Maths trim_lit_Mr_Smith)
  show ?thesis
    using capacity_boundary_accepted [OF n a] v l n a
    by (simp add: cs k t)
qed

section \<open>Sequences of form events\<close>

lemma constraints_updateClass_v2 [simp]: "constraints (updateClass_v2 i fv st) = constraints st"
  by (simp add: updateClass_v2_def Let_def split: option.splits)

lemma constraints_removeClass_v2 [simp]: "constraints (removeClass_v2 i st) = constraints st"
  by (simp add: removeClass_v2_def)

lemma step_v1_exclusive:
  "\<not> (prefer_morning (constraints st) \<and> prefer_afternoon (constraints st)) \<Longrightarrow>
   \<not> (prefer_morning (constraints (step_v1 st e)) \<and> prefer_afternoon (constraints (step_v1 st e)))"
  by (cases e)
    (simp_all add: periods_per_day_onChange_v1_def lunch_break_period_onChange_v1_def
      prefer_morning_onChange_def prefer_afternoon_onChange_def)

lemma step_v2_exclusive:
  "\<not> (prefer_morning (constraints st) \<and> prefer_afternoon (constraints st)) \<Longrightarrow>
   \<not> (prefer_morning (constraints (step_v2 st e)) \<and> prefer_afternoon (constraints (step_v2 st e)))"
  by (cases e)
    (simp_all add: periods_per_week_onChange_v2_def periods_per_day_onChange_v2_def
      lunch_break_period_onChange_v2_def prefer_morning_onChange_def prefer_afternoon_onChange_def)

lemma foldl_step_v1_exclusive:
  "\<not> (prefer_morning (constraints st) \<and> prefer_afternoon (constraints st)) \<Longrightarrow>
   \<not> (prefer_morning (constraints (foldl step_v1 st es)) \<and>
      prefer_afternoon (constraints (foldl step_v1 st es)))"
proof (induction es arbitrary: st)
  case Nil
  then show ?case by simp
next
  case (Cons e es)
  from Cons.prems have "\<not> (prefer_morning (constraints (step_v1 st e)) \<and>
      prefer_afternoon (constraints (step_v1 st e)))"
    by (rule step_v1_exclusive)
  then show ?case
    using Cons.IH [of "step_v1 st e"] by simp
qed

lemma foldl_step_v2_exclusive:
  "\<not> (prefer_morning (constraints st) \<and> prefer_afternoon (constraints st)) \<Longrightarrow>
   \<not> (prefer_morning (constraints (foldl step_v2 st es)) \<and>
      prefer_afternoon (constraints (foldl step_v2 st es)))"
proof (induction es arbitrary: st)
  case Nil
  then show ?case by simp
next
  case (Cons e es)
  from Cons.prems have "\<not> (prefer_morning (constraints (step_v2 st e)) \<and>
      prefer_afternoon (constraints (step_v2 st e)))"
    by (rule step_v2_exclusive)
  then show ?case
    using Cons.IH [of "step_v2 st e"] by simp
qed

text \<open>
  C6: after every sequence of form events, from the initial state, at most one of
  \<open>prefer_morning\<close> and \<open>prefer_afternoon\<close> is true, in both versions of the form;
  ticking one checkbox sets its flag and clears the other.
\<close>

theorem preference_flags_exclusive:
  "\<not> (prefer_morning (constraints (run_v1 es)) \<and> prefer_afternoon (constraints (run_v1 es))) \<and>
   \<not> (prefer_morning (constraints (run_v2 es)) \<and> prefer_afternoon (constraints (run_v2 es))) \<and>
   prefer_morning (prefer_morning_onChange True k) \<and>
   \<not> prefer_afternoon (prefer_morning_onChange True k) \<and>
   prefer_afternoon (prefer_afternoon_onChange True k) \<and>
   \<not> prefer_morning (prefer_afternoon_onChange True k)"
proof -
  have "\<not> (prefer_morning (constraints initial_v1) \<and> prefer_afternoon (constraints initial_v1))"
    by (simp add: initial_v1_def initial_constraints_def)
  then have v1: "\<not> (prefer_morning (constraints (run_v1 es)) \<and>
      prefer_afternoon (constraints (run_v1 es)))"
    unfolding run_v1_def by (rule foldl_step_v1_exclusive)
  have "\<not> (prefer_morning (constraints initial_v2) \<and> prefer_afternoon (constraints initial_v2))"
    by (simp add: initial_v2_def initial_constraints_def)
  then have v2: "\<not> (prefer_morning (constraints (run_v2 es)) \<and>
      prefer_afternoon (constraints (run_v2 es)))"
    unfolding run_v2_def by (rule foldl_step_v2_exclusive)
  show ?thesis
    using v1 v2 by (simp add: prefer_morning_onChange_def prefer_afternoon_onChange_def)
qed

theorem preference_flags_exclusive_witness:
  "prefer_afternoon (constraints (run_v2 [PreferMorningChange True, PreferAfternoonChange True])) \<and>
   \<not> prefer_morning (constraints (run_v2 [PreferMorningChange True, PreferAfternoonChange True])) \<and>
   prefer_afternoon (constraints (run_v1 [PreferMorningChange True, PreferAfternoonChange True])) \<and>
   \<not> prefer_morning (constraints (run_v1 [PreferMorningChange True, PreferAfternoonChange True]))"
  using preference_flags_exclusive
    [of "[PreferMorningChange True, PreferAfternoonChange True]" initial_constraints]
  by (simp add: run_v1_def run_v2_def prefer_morning_onChange_def prefer_afternoon_onChange_def)

text \<open>
  C7 fails in the simple form: add a class, remove the first class, add a class again.
  The new id is the list's length plus one, which is 2 both times.
\<close>

theorem duplicate_ids_v1:
  "map class_id (classes (run_v1 [AddClass 0, RemoveClass (lit ''1''), AddClass 0])) =
     [lit ''2'', lit ''2'']"
  by (simp add: run_v1_def initial_v1_def initial_classes_def addClass_v1_def removeClass_v1_def
      new_class_def toString_def digits.simps lit_def)

text \<open>
  C8 fails in the simple form, whose inputs store \<open>parseInt\<close>'s result as it is: 100 and
  \<open>NaN\<close> as periods per day, 0 as a class's periods per week.
\<close>

theorem unclamped_periods_v1:
  "periods_per_day (constraints (run_v1 [PeriodsPerDayChange (JInt 100)])) = JInt 100 \<and>
   periods_per_day (constraints (run_v1 [PeriodsPerDayChange JNaN])) = JNaN \<and>
   map periods_per_week (classes (run_v1 [PeriodsPerWeekChange (lit ''1'') (JInt 0)])) = [JInt 0]"
  by (simp add: run_v1_def initial_v1_def initial_classes_def periods_per_day_onChange_v1_def
      periods_per_week_onChange_v1_def updateClass_v1_def)

text \<open>
  C9 fails: the validating form stores 0 for a negative input and \<open>NaN\<close> for an input
  that is not a number; the simple form stores 100 while there are 8 periods per day.
\<close>

theorem lunch_out_of_range:
  "lunch_break_period (constraints (run_v2 [LunchBreakChange (JInt (- 3))])) = Some (JInt 0) \<and>
   lunch_break_period (constraints (run_v2 [LunchBreakChange JNaN])) = Some JNaN \<and>
   lunch_break_period (constraints (run_v1 [LunchBreakChange (JInt 100)])) = Some (JInt 100) \<and>
   periods_per_day (constraints (run_v1 [LunchBreakChange (JInt 100)])) = JInt 8"
  by (simp add: run_v1_def run_v2_def initial_v1_def initial_v2_def initial_constraints_def
      lunch_break_period_onChange_v1_def lunch_break_period_onChange_v2_def truthy_def)

section \<open>The two forms compared\<close>

lemma trim_lit_space: "trim (lit '' '') = []"
  by (simp add: trim_def lit_def is_ws_def)

text \<open>
  C3 fails in the simple form: a class whose name is a single space is submitted.
\<close>

theorem blank_name_submitted_v1:
  "trim (name (example_class ''1'' '' '' ''Mr. Smith'' 5)) = [] \<and>
   snd (handleGenerate_v1 blank_name_form) =
     [OnSubmit [example_class ''1'' '' '' ''Mr. Smith'' 5] None,
      PostGenerate [example_class ''1'' '' '' ''Mr. Smith'' 5] initial_constraints]"
  by (simp add: trim_lit_space handleGenerate_v1_def blank_name_form_def initial_v1_def
      example_class_def lit_Nil_iff Let_def)

text \<open>
  C10, as the code has it: whatever \<open>validateInputs\<close> of the validating form accepts, the
  simple form's \<open>handleGenerate\<close> submits. The converse fails: the validating form also
  rejects blank and over-long names, periods and durations out of range, duplicate ids, a
  lunch period past the day's end and an overfull week.
\<close>

theorem validating_form_stricter:
  assumes "snd (validateInputs (classes st) (constraints st))"
  shows "snd (handleGenerate_v1 st) =
     [OnSubmit (classes st) None, PostGenerate (classes st) (constraints st)]"
proof -
  have "\<forall>c\<in>set (classes st). class_valid (constraints st) c"
    using assms by (simp add: validateInputs_accepts_iff)
  then have "\<forall>c\<in>set (classes st). name c \<noteq> [] \<and> teacher c \<noteq> []"
    by (auto simp add: class_valid_def)
  then show ?thesis
    by (simp add: handleGenerate_v1_accepted)
qed

lemma example_class_valid:
  "1 \<le> p \<Longrightarrow> p \<le> 40 \<Longrightarrow>
   class_valid initial_constraints (example_class ''1'' ''Maths'' ''Mr. Smith'' p)"
  by (simp add: class_valid_def example_class_def trim_lit_Maths trim_lit_Mr_Smith
      initial_constraints_def length_lit lit_Nil_iff)

lemma lunch_valid_initial: "lunch_valid initial_constraints"
  by (simp add: lunch_valid_def initial_constraints_def truthy_def)

theorem validating_form_stricter_witness:
  "snd (validateInputs (classes filled_form) (constraints filled_form)) \<and>
   snd (handleGenerate_v1 filled_form) =
     [OnSubmit [example_class ''1'' ''Maths'' ''Mr. Smith'' 5] None,
      PostGenerate [example_class ''1'' ''Maths'' ''Mr. Smith'' 5] initial_constraints]"
proof -
  have v: "snd (validateInputs (classes filled_form) (constraints filled_form))"
    by (simp add: validateInputs_accepts_iff filled_form_def initial_v1_def example_class_valid
        lunch_valid_initial needed_example available_initial)
  show ?thesis
    using validating_form_stricter [OF v] v by (simp add: filled_form_def initial_v1_def)
qed

text \<open>
  C10 as stated fails: the simple form submits a class of 36 periods on the initial
  constraints; the validating form rejects it, as 35 periods are available.
\<close>

theorem forms_differ_counterexample:
  "snd (handleGenerate_v1 overfull_form) =
     [OnSubmit [example_class ''1'' ''Maths'' ''Mr. Smith'' 36] None,
      PostGenerate [example_class ''1'' ''Maths'' ''Mr. Smith'' 36] initial_constraints] \<and>
   \<not> snd (validateInputs (classes overfull_form) (constraints overfull_form))"
proof -
  have "snd (handleGenerate_v1 overfull_form) =
     [OnSubmit [example_class ''1'' ''Maths'' ''Mr. Smith'' 36] None,
      PostGenerate [example_class ''1'' ''Maths'' ''Mr. Smith'' 36] initial_constraints]"
    by (simp add: handleGenerate_v1_def overfull_form_def initial_v1_def example_class_def
        lit_Nil_iff Let_def)
  moreover have "\<not> snd (validateInputs (classes overfull_form) (constraints overfull_form))"
    by (simp add: validateInputs_accepts_iff overfull_form_def initial_v1_def needed_example
        available_initial)
  ultimately show ?thesis
    by simp
qed

section \<open>Further properties of the validating form\<close>

subsection \<open>Numeric inputs stay in range\<close>

lemma classes_updateClass_v2:
  "classes (updateClass_v2 i fv st) =
     map (\<lambda>c. if class_id c = i then
           (case fv of Name v \<Rightarrow> (set_field c fv)\<lparr>name := trimStart v\<rparr>
            | Teacher v \<Rightarrow> (set_field c fv)\<lparr>teacher := trimStart v\<rparr>
            | Periods_per_week _ \<Rightarrow> set_field c fv)
         else c) (classes st)"
  by (simp add: updateClass_v2_def Let_def split: option.splits)

lemma clamp_periods_per_week:
  "\<exists>p. (if isNaN val then JInt 1 else Math_max (JInt 1) (Math_min (JInt 40) val)) = JInt p \<and>
       1 \<le> p \<and> p \<le> 40"
  by (cases val) (simp_all add: isNaN_def)

lemma clamp_periods_per_day:
  "\<exists>q. (if isNaN val then JInt 8 else Math_max (JInt 4) (Math_min (JInt 12) val)) = JInt q \<and>
       4 \<le> q \<and> q \<le> 12"
  by (cases val) (simp_all add: isNaN_def)

lemma step_v2_periods_in_range:
  assumes "periods_in_range st"
  shows "periods_in_range (step_v2 st e)"
proof (cases e)
  case (AddClass now)
  then show ?thesis
    using assms by (auto simp add: periods_in_range_def addClass_v2_def new_class_def)
next
  case (RemoveClass i)
  then show ?thesis
    using assms by (auto simp add: periods_in_range_def removeClass_v2_def)
next
  case (NameChange i v)
  then show ?thesis
    using assms by (auto simp add: periods_in_range_def classes_updateClass_v2)
next
  case (TeacherChange i v)
  then show ?thesis
    using assms by (auto simp add: periods_in_range_def classes_updateClass_v2)
next
  case (PeriodsPerWeekChange i val)
  obtain p where p: "(if isNaN val then JInt 1 else Math_max (JInt 1) (Math_min (JInt 40) val)) = JInt p"
      "1 \<le> p" "p \<le> 40"
    using clamp_periods_per_week [of val] by blast
  show ?thesis
    using assms p unfolding PeriodsPerWeekChange
    by (auto simp add: periods_in_range_def periods_per_week_onChange_v2_def
        classes_updateClass_v2 simp del: Math_max.simps Math_min.simps)
next
  case (PeriodsPerDayChange val)
  obtain q where q: "(if isNaN val then JInt 8 else Math_max (JInt 4) (Math_min (JInt 12) val)) = JInt q"
      "4 \<le> q" "q \<le> 12"
    using clamp_periods_per_day [of val] by blast
  show ?thesis
    using assms q unfolding PeriodsPerDayChange
    by (simp add: periods_in_range_def periods_per_day_onChange_v2_def
        del: Math_max.simps Math_min.simps)
next
  case (LunchBreakChange val)
  then show ?thesis
    using assms by (simp add: periods_in_range_def lunch_break_period_onChange_v2_def)
next
  case (PreferMorningChange b)
  then show ?thesis
    using assms by (simp add: periods_in_range_def prefer_morning_onChange_def)
next
  case (PreferAfternoonChange b)
  then show ?thesis
    using assms by (simp add: periods_in_range_def prefer_afternoon_onChange_def)
qed

lemma foldl_step_v2_periods_in_range:
  "periods_in_range st \<Longrightarrow> periods_in_range (foldl step_v2 st es)"
  by (induction es arbitrary: st) (simp_all add: step_v2_periods_in_range)

text \<open>
  In the validating form, after every sequence of form events (non-numeric input
  included) \<open>periods_per_day\<close> is an integer in [4,12] and every class's
  \<open>periods_per_week\<close> is an integer in [1,40].
\<close>

theorem periods_in_range_v2: "periods_in_range (run_v2 es)"
proof -
  have "periods_in_range initial_v2"
    by (simp add: periods_in_range_def initial_v2_def initial_constraints_def initial_classes_def)
  then show ?thesis
    unfolding run_v2_def by (rule foldl_step_v2_periods_in_range)
qed

theorem periods_in_range_v2_witness:
  "periods_per_day (constraints (run_v2 [PeriodsPerDayChange (JInt 100), PeriodsPerWeekChange (lit ''1'') JNaN]))
     = JInt 12 \<and>
   map periods_per_week (classes (run_v2 [PeriodsPerDayChange (JInt 100), PeriodsPerWeekChange (lit ''1'') JNaN]))
     = [JInt 1]"
  using periods_in_range_v2 [of "[PeriodsPerDayChange (JInt 100), PeriodsPerWeekChange (lit ''1'') JNaN]"]
  by (simp add: run_v2_def initial_v2_def initial_classes_def initial_constraints_def
      periods_per_day_onChange_v2_def periods_per_week_onChange_v2_def updateClass_v2_def isNaN_def)

subsection \<open>The lunch input on its intended inputs\<close>

text \<open>
  In the validating form a zero lunch input stores \<open>null\<close>, and a positive integer is
  stored clamped to the periods per day, so within [1, periods_per_day].
\<close>

theorem lunch_input_in_range_v2:
  "lunch_break_period (lunch_break_period_onChange_v2 (JInt 0) k) = None \<and>
   (periods_per_day k = JInt q \<and> 1 \<le> q \<and> 1 \<le> v \<longrightarrow>
      lunch_break_period (lunch_break_period_onChange_v2 (JInt v) k) = Some (JInt (min q v)) \<and>
      1 \<le> min q v \<and> min q v \<le> q)"
  by (simp add: lunch_break_period_onChange_v2_def)

theorem lunch_input_in_range_v2_witness:
  "periods_per_day initial_constraints = JInt 8 \<and>
   lunch_break_period (lunch_break_period_onChange_v2 (JInt 0) initial_constraints) = None \<and>
   lunch_break_period (lunch_break_period_onChange_v2 (JInt 100) initial_constraints) = Some (JInt 8)"
  using lunch_input_in_range_v2 [of initial_constraints 8 100]
  by (simp add: initial_constraints_def)

subsection \<open>Blank names and teachers are rejected\<close>

lemma key_update_if:
  "x \<in> fst ` set al \<Longrightarrow> x \<in> fst ` set (if b then AList.update k v al else al)"
  by (simp add: dom_update)

lemma key_update_if2:
  "x \<in> fst ` set al \<Longrightarrow>
   x \<in> fst ` set (if b then AList.update k v al else if b' then AList.update k v' al else al)"
  by (simp add: dom_update)

lemma validateClass_keys_mono:
  assumes "x \<in> fst ` set e"
  shows "x \<in> fst ` set (validateClass k e c)"
  unfolding validateClass_def Let_def
  apply (rule key_update_if)+
  apply (rule key_update_if2)
  apply (rule key_update_if2)
  apply (rule assms)
  done

lemma validateClass_name_key:
  assumes "trim (name c) = []"
  shows "class_key (class_id c) ''name'' \<in> fst ` set (validateClass k e c)"
  unfolding validateClass_def Let_def
  apply (rule key_update_if)+
  apply (rule key_update_if2)
  apply (simp add: assms dom_update)
  done

lemma validateClass_teacher_key:
  assumes "trim (teacher c) = []"
  shows "class_key (class_id c) ''teacher'' \<in> fst ` set (validateClass k e c)"
  unfolding validateClass_def Let_def
  apply (rule key_update_if)+
  apply (simp add: assms dom_update)
  done

lemma foldl_validateClass_keys_mono:
  "x \<in> fst ` set e \<Longrightarrow> x \<in> fst ` set (foldl (validateClass k) e cs)"
  by (induction cs arbitrary: e) (simp_all add: validateClass_keys_mono)

lemma foldl_validateClass_name_key:
  "c \<in> set cs \<Longrightarrow> trim (name c) = [] \<Longrightarrow>
   class_key (class_id c) ''name'' \<in> fst ` set (foldl (validateClass k) e cs)"
proof (induction cs arbitrary: e)
  case Nil
  then show ?case by simp
next
  case (Cons d cs)
  show ?case
  proof (cases "c = d")
    case True
    with Cons.prems have "class_key (class_id c) ''name'' \<in> fst ` set (validateClass k e d)"
      by (simp add: validateClass_name_key)
    then show ?thesis
      by (simp add: foldl_validateClass_keys_mono)
  next
    case False
    with Cons.prems have "c \<in> set cs" by simp
    then show ?thesis
      using Cons.IH Cons.prems(2) by simp
  qed
qed

lemma foldl_validateClass_teacher_key:
  "c \<in> set cs \<Longrightarrow> trim (teacher c) = [] \<Longrightarrow>
   class_key (class_id c) ''teacher'' \<in> fst ` set (foldl (validateClass k) e cs)"
proof (induction cs arbitrary: e)
  case Nil
  then show ?case by simp
next
  case (Cons d cs)
  show ?case
  proof (cases "c = d")
    case True
    with Cons.prems have "class_key (class_id c) ''teacher'' \<in> fst ` set (validateClass k e d)"
      by (simp add: validateClass_teacher_key)
    then show ?thesis
      by (simp add: foldl_validateClass_keys_mono)
  next
    case False
    with Cons.prems have "c \<in> set cs" by simp
    then show ?thesis
      using Cons.IH Cons.prems(2) by simp
  qed
qed

lemma validateInputs_keys_mono:
  "x \<in> fst ` set (foldl (validateClass k) [] cs) \<Longrightarrow> x \<in> fst ` set (fst (validateInputs cs k))"
  by (simp add: validateInputs_def Let_def dom_update split: option.splits)

text \<open>
  In the validating form, a class whose name or teacher is empty or only whitespace stops
  \<open>handleGenerate\<close> before any effect, and the stored errors have an entry under that
  class's name key, respectively teacher key.
\<close>

theorem blank_class_rejected_v2:
  assumes "c \<in> set (classes st)"
    and "trim (name c) = [] \<or> trim (teacher c) = []"
  shows "snd (handleGenerate_v2 st) = [] \<and>
    (trim (name c) = [] \<longrightarrow>
       class_key (class_id c) ''name'' \<in> fst ` set (validationErrors (fst (handleGenerate_v2 st)))) \<and>
    (trim (teacher c) = [] \<longrightarrow>
       class_key (class_id c) ''teacher'' \<in> fst ` set (validationErrors (fst (handleGenerate_v2 st))))"
proof -
  have "\<not> class_valid (constraints st) c"
    using assms(2) by (auto simp add: class_valid_def)
  with assms(1) have "\<not> snd (validateInputs (classes st) (constraints st))"
    by (auto simp add: validateInputs_accepts_iff)
  then have "snd (handleGenerate_v2 st) = []"
    by (simp add: handleGenerate_v2_rejected)
  moreover have "class_key (class_id c) ''name'' \<in>
      fst ` set (validationErrors (fst (handleGenerate_v2 st)))" if "trim (name c) = []"
    using assms(1) that
    by (simp add: handleGenerate_v2_errors validateInputs_keys_mono foldl_validateClass_name_key)
  moreover have "class_key (class_id c) ''teacher'' \<in>
      fst ` set (validationErrors (fst (handleGenerate_v2 st)))" if "trim (teacher c) = []"
    using assms(1) that
    by (simp add: handleGenerate_v2_errors validateInputs_keys_mono foldl_validateClass_teacher_key)
  ultimately show ?thesis
    by blast
qed

theorem blank_class_rejected_v2_witness:
  "example_class ''1'' ''Maths'' '' '' 5 \<in> set (classes no_teacher_form) \<and>
   trim (teacher (example_class ''1'' ''Maths'' '' '' 5)) = [] \<and>
   snd (handleGenerate_v2 no_teacher_form) = [] \<and>
   lit ''class-1-teacher'' \<in> fst ` set (validationErrors (fst (handleGenerate_v2 no_teacher_form)))"
proof -
  have m: "example_class ''1'' ''Maths'' '' '' 5 \<in> set (classes no_teacher_form)"
    by (simp add: no_teacher_form_def initial_v2_def)
  have t: "trim (teacher (example_class ''1'' ''Maths'' '' '' 5)) = []"
    by (simp add: example_class_def trim_lit_space)
  have k: "class_key (class_id (example_class ''1'' ''Maths'' '' '' 5)) ''teacher'' =
      lit ''class-1-teacher''"
    by (simp add: class_key_def example_class_def lit_def)
  show ?thesis
    using blank_class_rejected_v2 [OF m disjI2, OF t] m t by (simp add: k)
qed

subsection \<open>What the validating form accepts\<close>

text \<open>
  \<open>validateInputs\<close> accepts exactly when every class passes the per-class checks, the
  class ids are pairwise different, the lunch period does not exceed the periods per day,
  and the required period count does not exceed the capacity.
\<close>

theorem validateInputs_acceptance:
  "snd (validateInputs cs k) \<longleftrightarrow>
     (\<forall>c\<in>set cs. class_valid k c) \<and> distinct (map class_id cs) \<and> lunch_valid k \<and>
     \<not> js_gt (totalPeriodsNeeded cs) (totalPeriodsAvailable k)"
  by (rule validateInputs_accepts_iff)

theorem validateInputs_acceptance_witness:
  "snd (validateInputs [example_class ''1'' ''Maths'' ''Mr. Smith'' 5] initial_constraints) \<and>
   \<not> snd (validateInputs [example_class ''1'' ''Maths'' ''Mr. Smith'' 5,
                            example_class ''1'' ''Maths'' ''Mr. Smith'' 5] initial_constraints)"
  using validateInputs_acceptance [of "[example_class ''1'' ''Maths'' ''Mr. Smith'' 5]" initial_constraints]
    validateInputs_acceptance [of "[example_class ''1'' ''Maths'' ''Mr. Smith'' 5,
                            example_class ''1'' ''Maths'' ''Mr. Smith'' 5]" initial_constraints]
  by (simp add: example_class_valid lunch_valid_initial needed_example available_initial)

subsection \<open>Class ids under a strictly increasing clock\<close>

lemma digits_lt10: "n < 10 \<Longrightarrow> digits n = [48 + n]"
  by (subst digits.simps) simp

lemma digits_ge10: "\<not> n < 10 \<Longrightarrow> digits n = digits (n div 10) @ [48 + n mod 10]"
  by (subst digits.simps) simp

lemma digits_nonempty: "digits n \<noteq> []"
  by (cases "n < 10") (simp_all add: digits_lt10 digits_ge10)

lemma digits_ge_48: "x \<in> set (digits n) \<Longrightarrow> 48 \<le> x"
proof (induction n rule: digits.induct)
  case (1 n)
  show ?case
  proof (cases "n < 10")
    case True
    then show ?thesis using "1.prems" by (simp add: digits_lt10)
  next
    case False
    then show ?thesis using 1 by (auto simp add: digits_ge10)
  qed
qed

lemma digits_inj: "digits n = digits m \<Longrightarrow> n = m"
proof (induction n arbitrary: m rule: digits.induct)
  case (1 n)
  show ?case
  proof (cases "n < 10")
    case nT: True
    show ?thesis
    proof (cases "m < 10")
      case True
      with nT "1.prems" show ?thesis by (simp add: digits_lt10)
    next
      case False
      with nT "1.prems" have "[48 + n] = digits (m div 10) @ [48 + m mod 10]"
        by (simp add: digits_lt10 digits_ge10)
      then have "butlast [48 + n] = butlast (digits (m div 10) @ [48 + m mod 10])"
        by simp
      then have "digits (m div 10) = []"
        by simp
      then show ?thesis
        using digits_nonempty by blast
    qed
  next
    case nF: False
    show ?thesis
    proof (cases "m < 10")
      case True
      with nF "1.prems" have "digits (n div 10) @ [48 + n mod 10] = [48 + m]"
        by (simp add: digits_lt10 digits_ge10)
      then have "butlast (digits (n div 10) @ [48 + n mod 10]) = butlast [48 + m]"
        by simp
      then have "digits (n div 10) = []"
        by simp
      then show ?thesis
        using digits_nonempty by blast
    next
      case False
      with nF "1.prems"
      have "digits (n div 10) @ [48 + n mod 10] = digits (m div 10) @ [48 + m mod 10]"
        by (simp add: digits_ge10)
      then have d: "digits (n div 10) = digits (m div 10)" and r: "n mod 10 = m mod 10"
        by simp_all
      from "1.IH" [OF nF d] have "n div 10 = m div 10" .
      with r show ?thesis
        by (metis div_mult_mod_eq)
    qed
  qed
qed

lemma toString_inj: "toString (JInt a) = toString (JInt b) \<Longrightarrow> a = b"
proof -
  assume eq: "toString (JInt a) = toString (JInt b)"
  have no_minus: "45 # xs \<noteq> digits n" for xs n
  proof
    assume "45 # xs = digits n"
    then have "45 \<in> set (digits n)"
      by (metis list.set_intros(1))
    then have "(48::nat) \<le> 45"
      by (rule digits_ge_48)
    then show False by simp
  qed
  consider "a < 0" "b < 0" | "a < 0" "\<not> b < 0" | "\<not> a < 0" "b < 0" | "\<not> a < 0" "\<not> b < 0"
    by blast
  then show ?thesis
  proof cases
    case 1
    with eq have "digits (nat (- a)) = digits (nat (- b))"
      by (simp add: toString_def)
    then have "nat (- a) = nat (- b)"
      by (rule digits_inj)
    with 1 show ?thesis by simp
  next
    case 2
    with eq have "45 # digits (nat (- a)) = digits (nat b)"
      by (simp add: toString_def)
    then show ?thesis using no_minus by blast
  next
    case 3
    with eq have "45 # digits (nat (- b)) = digits (nat a)"
      by (simp add: toString_def)
    then show ?thesis using no_minus by blast
  next
    case 4
    with eq have "digits (nat a) = digits (nat b)"
      by (simp add: toString_def)
    then have "nat a = nat b"
      by (rule digits_inj)
    with 4 show ?thesis by simp
  qed
qed

lemma class_ids_updateClass_v2 [simp]: "class_ids (updateClass_v2 i fv st) = class_ids st"
  by (cases fv) (simp_all add: class_ids_def classes_updateClass_v2 comp_def)

lemma class_ids_removeClass_v2:
  "class_ids (removeClass_v2 i st) =
     (if length (classes st) > 1 then filter (\<lambda>j. j \<noteq> i) (class_ids st) else class_ids st)"
  by (simp add: class_ids_def removeClass_v2_def filter_map comp_def)

lemma class_ids_constraints_update [simp]: "class_ids (st\<lparr>constraints := k\<rparr>) = class_ids st"
  by (simp add: class_ids_def)

lemma step_v2_ids:
  assumes d: "distinct (class_ids st)"
    and bd: "\<forall>i\<in>set (class_ids st). \<exists>t\<le>b. i = toString (JInt t)"
    and s: "sorted_wrt (<) (b # add_times (e # es))"
  shows "\<exists>b'. distinct (class_ids (step_v2 st e)) \<and>
     (\<forall>i\<in>set (class_ids (step_v2 st e)). \<exists>t\<le>b'. i = toString (JInt t)) \<and>
     sorted_wrt (<) (b' # add_times es)"
proof (cases e)
  case (AddClass now)
  from s AddClass have lt: "b < now" and s': "sorted_wrt (<) (now # add_times es)"
    by simp_all
  have fresh: "toString (JInt now) \<notin> set (class_ids st)"
  proof
    assume "toString (JInt now) \<in> set (class_ids st)"
    with bd obtain t where t: "t \<le> b" "toString (JInt now) = toString (JInt t)"
      by blast
    then have "now = t"
      by (simp add: toString_inj)
    with t lt show False by simp
  qed
  have bd': "\<forall>i\<in>set (class_ids st). \<exists>t\<le>now. i = toString (JInt t)"
  proof
    fix i assume "i \<in> set (class_ids st)"
    with bd obtain t where "t \<le> b" "i = toString (JInt t)"
      by blast
    with lt show "\<exists>t\<le>now. i = toString (JInt t)"
      by (intro exI [of _ t]) simp
  qed
  have ids: "class_ids (step_v2 st e) =
      (if length (classes st) \<ge> 20 then class_ids st else class_ids st @ [toString (JInt now)])"
    unfolding AddClass by (simp add: class_ids_def addClass_v2_def new_class_def)
  have "distinct (class_ids (step_v2 st e))"
    using d fresh by (simp add: ids)
  moreover have "\<forall>i\<in>set (class_ids (step_v2 st e)). \<exists>t\<le>now. i = toString (JInt t)"
    using bd' by (auto simp add: ids)
  ultimately show ?thesis
    using s' by blast
next
  case (RemoveClass i)
  have "distinct (class_ids (step_v2 st e)) \<and>
     (\<forall>i\<in>set (class_ids (step_v2 st e)). \<exists>t\<le>b. i = toString (JInt t))"
    using d bd unfolding RemoveClass by (simp add: class_ids_removeClass_v2)
  moreover from s RemoveClass have "sorted_wrt (<) (b # add_times es)"
    by simp
  ultimately show ?thesis
    by blast
next
  case (NameChange i v)
  with d bd s show ?thesis
    by (intro exI [of _ b]) simp
next
  case (TeacherChange i v)
  with d bd s show ?thesis
    by (intro exI [of _ b]) simp
next
  case (PeriodsPerWeekChange i val)
  with d bd s show ?thesis
    by (intro exI [of _ b]) (simp add: periods_per_week_onChange_v2_def)
next
  case (PeriodsPerDayChange val)
  with d bd s show ?thesis
    by (intro exI [of _ b]) simp
next
  case (LunchBreakChange val)
  with d bd s show ?thesis
    by (intro exI [of _ b]) simp
next
  case (PreferMorningChange x)
  with d bd s show ?thesis
    by (intro exI [of _ b]) simp
next
  case (PreferAfternoonChange x)
  with d bd s show ?thesis
    by (intro exI [of _ b]) simp
qed

lemma foldl_step_v2_ids:
  "distinct (class_ids st) \<Longrightarrow>
   \<forall>i\<in>set (class_ids st). \<exists>t\<le>b. i = toString (JInt t) \<Longrightarrow>
   sorted_wrt (<) (b # add_times es) \<Longrightarrow>
   distinct (class_ids (foldl step_v2 st es))"
proof (induction es arbitrary: st b)
  case Nil
  then show ?case by simp
next
  case (Cons e es)
  from step_v2_ids [OF Cons.prems] obtain b' where
    "distinct (class_ids (step_v2 st e))"
    "\<forall>i\<in>set (class_ids (step_v2 st e)). \<exists>t\<le>b'. i = toString (JInt t)"
    "sorted_wrt (<) (b' # add_times es)"
    by blast
  then have "distinct (class_ids (foldl step_v2 (step_v2 st e) es))"
    by (rule Cons.IH)
  then show ?case by simp
qed

lemma toString_1: "toString (JInt 1) = lit ''1''"
  by (simp add: toString_def digits.simps lit_def)

text \<open>
  In the validating form, when the clock readings \<open>Date.now()\<close> of the add-class clicks
  are strictly increasing (and later than 1 ms after the epoch, the initial class's id),
  the class ids are pairwise different after every sequence of form events.
\<close>

theorem ids_distinct_v2:
  assumes "sorted_wrt (<) (1 # add_times es)"
  shows "distinct (map class_id (classes (run_v2 es)))"
proof -
  have "distinct (class_ids initial_v2)"
    by (simp add: class_ids_def initial_v2_def initial_classes_def)
  moreover have "\<forall>i\<in>set (class_ids initial_v2). \<exists>t\<le>1. i = toString (JInt t)"
    by (simp add: class_ids_def initial_v2_def initial_classes_def toString_1 exI [of _ 1])
  ultimately have "distinct (class_ids (foldl step_v2 initial_v2 es))"
    using assms by (rule foldl_step_v2_ids)
  then show ?thesis
    by (simp add: run_v2_def class_ids_def)
qed

theorem ids_distinct_v2_witness:
  "sorted_wrt (<) (1 # add_times [AddClass 1700000000000, RemoveClass (lit ''1''), AddClass 1700000000001]) \<and>
   map class_id (classes (run_v2 [AddClass 1700000000000, RemoveClass (lit ''1''), AddClass 1700000000001]))
     = [lit ''1700000000000'', lit ''1700000000001'']"
proof -
  have s: "sorted_wrt (<) (1 # add_times [AddClass 1700000000000, RemoveClass (lit ''1''), AddClass 1700000000001])"
    by simp
  have "map class_id (classes (run_v2 [AddClass 1700000000000, RemoveClass (lit ''1''), AddClass 1700000000001]))
     = [lit ''1700000000000'', lit ''1700000000001'']"
    by (simp add: run_v2_def initial_v2_def initial_classes_def addClass_v2_def removeClass_v2_def
        new_class_def toString_def digits.simps lit_def)
  then show ?thesis
    using ids_distinct_v2 [OF s] s by simp
qed

text \<open>Two add-class clicks within one millisecond give the same id twice.\<close>

lemma same_millisecond_ids_v2:
  "map class_id (classes (run_v2 [AddClass 1700000000000, AddClass 1700000000000])) =
     [lit ''1'', lit ''1700000000000'', lit ''1700000000000'']"
  by (simp add: run_v2_def initial_v2_def initial_classes_def addClass_v2_def new_class_def
      toString_def digits.simps lit_def)

section \<open>The required period count on the states of the form\<close>









text \<open>
  The function itself weighs a class by its duration. No handler of the form writes a
  duration, so a class list like the following one is held by no state of the form.
\<close>

lemma totalPeriodsNeeded_weighs_duration:
  "totalPeriodsNeeded [(new_class (lit ''1''))\<lparr>duration := JInt 2\<rparr>] = JInt 10"
  by (simp add: needed_formula new_class_def js_or_int_def)

end
